theory Spec2Isabelle
  imports Main "HOL-Library.Word"
begin

text \<open>
  A model of \<^verbatim>\<open>SiftTracking.js\<close>: the class \<open>SiftTracking\<close>, which loads the Sift
  snippet into the page and POSTs events to the Sift API. The methods are functions
  on the state of the adapter and of the page; what a method throws is a value; the
  handlers of a promise are functions of the way the promise settles.
\<close>

section \<open>JavaScript values\<close>

text \<open>
  The values the adapter handles: the primitives, arrays, plain objects and Error
  objects. A plain object is the list of its own properties in insertion order, with
  unique keys (\<open>wf_obj\<close>). A number is NaN or an integer from \<open>- 2 ^ 53\<close> to
  \<open>2 ^ 53 - 1\<close>, a signed integer of 54 bits: a double holds each of them exactly and
  prints it in plain decimal notation. \<open>JErr name message\<close> is an instance of Error
  (or of a subclass such as TypeError) with the given \<open>name\<close> and \<open>message\<close>.
  The other numbers, functions, symbols, accessor properties and proxies are outside
  the model; so no property of an object is callable.
\<close>

datatype jsval =
    JUndefined
  | JNull
  | JBool bool
  | JNum "54 word"
  | JNaN
  | JStr string
  | JArr "jsval list"
  | JObj "(string \<times> jsval) list"
  | JErr string string

type_synonym obj = "(string \<times> jsval) list"

definition wf_obj :: "obj \<Rightarrow> bool" where
  "wf_obj ps = distinct (map fst ps)"

text \<open>ToBoolean: what \<open>!x\<close>, \<open>x || y\<close> and \<open>x ? a : b\<close> test.\<close>

fun truthy :: "jsval \<Rightarrow> bool" where
  "truthy JUndefined = False"
| "truthy JNull = False"
| "truthy (JBool b) = b"
| "truthy (JNum n) = (n \<noteq> 0)"
| "truthy JNaN = False"
| "truthy (JStr s) = (s \<noteq> [])"
| "truthy (JArr xs) = True"
| "truthy (JObj ps) = True"
| "truthy (JErr n m) = True"

text \<open>\<open>a || b\<close>\<close>

definition js_or :: "jsval \<Rightarrow> jsval \<Rightarrow> jsval" where
  "js_or a b = (if truthy a then a else b)"

text \<open>\<open>Object.prototype.toString.call(v)\<close>\<close>

fun class_string :: "jsval \<Rightarrow> string" where
  "class_string JUndefined = ''[object Undefined]''"
| "class_string JNull = ''[object Null]''"
| "class_string (JBool b) = ''[object Boolean]''"
| "class_string (JNum n) = ''[object Number]''"
| "class_string JNaN = ''[object Number]''"
| "class_string (JStr s) = ''[object String]''"
| "class_string (JArr xs) = ''[object Array]''"
| "class_string (JObj ps) = ''[object Object]''"
| "class_string (JErr n m) = ''[object Error]''"

text \<open>Decimal numerals, for the string conversion of numbers.\<close>

definition digit_char :: "nat \<Rightarrow> char" where
  "digit_char d = char_of (48 + d)"

fun nat_to_string :: "nat \<Rightarrow> string" where
  "nat_to_string n =
     (if n < 10 then [digit_char n] else nat_to_string (n div 10) @ [digit_char (n mod 10)])"

declare nat_to_string.simps [simp del]

definition int_to_string :: "int \<Rightarrow> string" where
  "int_to_string i = (if i < 0 then CHR ''-'' # nat_to_string (nat (- i)) else nat_to_string (nat i))"

text \<open>\<open>Array.prototype.join(sep)\<close> on a list of strings.\<close>

fun join :: "string \<Rightarrow> string list \<Rightarrow> string" where
  "join sep [] = []"
| "join sep [s] = s"
| "join sep (s # t # ss) = s @ sep @ join sep (t # ss)"

text \<open>
  An exception that a conversion or a property access of the language throws, with
  its message. The message of a TypeError is the engine's own; the ones below are
  those of V8. \<open>caught\<close> is the Error object a handler receives for it.
\<close>

datatype js_exception = TypeError string

fun caught :: "js_exception \<Rightarrow> jsval" where
  "caught (TypeError m) = JErr ''TypeError'' m"

text \<open>The results of a list of steps, or the exception of the first step that throws.\<close>

fun collect :: "('e + 'a) list \<Rightarrow> 'e + 'a list" where
  "collect [] = Inr []"
| "collect (Inl e # rs) = Inl e"
| "collect (Inr x # rs) = (case collect rs of Inl e \<Rightarrow> Inl e | Inr xs \<Rightarrow> Inr (x # xs))"

text \<open>
  ToString, as a template literal \<open>`${v}`\<close> applies it. A plain object is converted
  by its \<open>toString\<close> and, failing that, its \<open>valueOf\<close>: an object without an own
  property \<open>toString\<close> inherits the one that returns \<open>[object Object]\<close>; an object
  with an own property \<open>toString\<close> has no callable one, the \<open>valueOf\<close> it has or
  inherits gives no primitive value, and the conversion throws a TypeError. An array
  joins the conversions of its elements with a comma, null and undefined elements
  giving the empty string. An Error object prints as \<open>Error.prototype.toString\<close> does.
\<close>

fun to_string :: "jsval \<Rightarrow> js_exception + string" where
  "to_string JUndefined = Inr ''undefined''"
| "to_string JNull = Inr ''null''"
| "to_string (JBool b) = Inr (if b then ''true'' else ''false'')"
| "to_string (JNum n) = Inr (int_to_string (sint n))"
| "to_string JNaN = Inr ''NaN''"
| "to_string (JStr s) = Inr s"
| "to_string (JArr xs) =
     (case collect (map (\<lambda>x. case x of JUndefined \<Rightarrow> Inr [] | JNull \<Rightarrow> Inr []
                                  | _ \<Rightarrow> to_string x) xs) of
        Inl e \<Rightarrow> Inl e
      | Inr ss \<Rightarrow> Inr (join '','' ss))"
| "to_string (JObj ps) =
     (if map_of ps ''toString'' = None then Inr ''[object Object]''
      else Inl (TypeError ''Cannot convert object to primitive value''))"
| "to_string (JErr n m) = Inr (if n = [] then m else if m = [] then n else n @ '': '' @ m)"

text \<open>The values that have a conversion to a string.\<close>

definition convertible :: "jsval \<Rightarrow> bool" where
  "convertible v = (\<not> isl (to_string v))"

text \<open>\<open>new Error(message)\<close>\<close>

definition new_Error :: "string \<Rightarrow> jsval" where
  "new_Error m = JErr ''Error'' m"

subsection \<open>Objects: property lookup, assignment, spread\<close>

definition get_prop :: "obj \<Rightarrow> string \<Rightarrow> jsval option" where
  "get_prop ps k = map_of ps k"

text \<open>
  Defining a property keeps the position of an existing key and appends a new key.
\<close>

fun set_prop :: "string \<Rightarrow> jsval \<Rightarrow> obj \<Rightarrow> obj" where
  "set_prop k v [] = [(k, v)]"
| "set_prop k v (p # ps) = (if fst p = k then (k, v) # ps else p # set_prop k v ps)"

text \<open>
  \<open>{...target, ...src}\<close>: the own properties of \<open>src\<close> are defined on the object
  under construction, in order.
\<close>

fun spread :: "obj \<Rightarrow> obj \<Rightarrow> obj" where
  "spread target [] = target"
| "spread target ((k, v) # src) = spread (set_prop k v target) src"

text \<open>
  The own enumerable properties a spread copies: those of a plain object; the indexed
  elements of an array and the indexed characters of a string; none for the other
  primitives, null, undefined, and an Error object (whose \<open>message\<close> is not
  enumerable).
\<close>

fun own_props :: "jsval \<Rightarrow> obj" where
  "own_props (JObj ps) = ps"
| "own_props (JArr xs) = zip (map nat_to_string [0..<length xs]) xs"
| "own_props (JStr s) = zip (map nat_to_string [0..<length s]) (map (\<lambda>c. JStr [c]) s)"
| "own_props v = []"

section \<open>The page: global queue, document, console, network\<close>

record script_element =
  script_async :: bool
  script_type :: string
  script_src :: jsval

datatype effect =
    QueuePush jsval
  | AppendScript script_element
  | ConsoleLog string
  | ConsoleError string
  | Fetch jsval obj

text \<open>
  \<open>sift\<close> is \<open>window._sift\<close>: \<open>None\<close> while the global is not set, else the command
  array. \<open>trace\<close> lists the effects on the page in the order they happened;
  \<open>Fetch url data\<close> is the call \<open>_apiPostData(url, data)\<close>, which calls \<open>fetch\<close> to
  POST \<open>data\<close> to \<open>url\<close>.
\<close>

record world =
  sift :: "jsval list option"
  trace :: "effect list"

definition emit :: "effect \<Rightarrow> world \<Rightarrow> world" where
  "emit e w = w\<lparr>trace := trace w @ [e]\<rparr>"

definition posts :: "world \<Rightarrow> (jsval \<times> obj) list" where
  "posts w = concat (map (\<lambda>e. case e of Fetch u d \<Rightarrow> [(u, d)] | _ \<Rightarrow> []) (trace w))"

record navigator =
  userAgent :: string
  languages :: "string list"
  language :: string

section \<open>The adapter\<close>

record config =
  userId :: jsval
  feid :: jsval
  snippetKey :: jsval
  snippetSrc :: jsval
  apiKey :: jsval
  apiUrl :: jsval

record adapter =
  config :: config
  eventData :: obj
  isInitialized :: bool
  snippetLoaded :: bool

subsection \<open>\<open>_handleError\<close>\<close>

text \<open>
  \<open>error.message\<close>: reading a property of null or undefined throws a TypeError; a
  primitive or an array has no such property; a plain object has it when it is one
  of its own properties.
\<close>

fun get_message :: "jsval \<Rightarrow> js_exception + jsval" where
  "get_message JUndefined =
     Inl (TypeError ''Cannot read properties of undefined (reading 'message')'')"
| "get_message JNull = Inl (TypeError ''Cannot read properties of null (reading 'message')'')"
| "get_message (JErr n m) = Inr (JStr m)"
| "get_message (JObj ps) = Inr (case get_prop ps ''message'' of None \<Rightarrow> JUndefined | Some v \<Rightarrow> v)"
| "get_message v = Inr JUndefined"

text \<open>\<open>error.message || error || 'UNKNOWN'\<close>\<close>

definition message_value :: "jsval \<Rightarrow> js_exception + jsval" where
  "message_value error =
     (case get_message error of
        Inl x \<Rightarrow> Inl x
      | Inr m \<Rightarrow> Inr (js_or (js_or m error) (JStr ''UNKNOWN'')))"

text \<open>
  The line \<open>`SiftTracking::${method || 'General'}:Error: ${error.message || error || 'UNKNOWN'}`\<close>:
  a template literal evaluates and converts its first expression, then its second;
  either step may throw.
\<close>

definition error_line :: "jsval \<Rightarrow> jsval \<Rightarrow> js_exception + string" where
  "error_line error method =
     (case to_string (js_or method (JStr ''General'')) of
        Inl x \<Rightarrow> Inl x
      | Inr operation \<Rightarrow>
          (case message_value error of
             Inl x \<Rightarrow> Inl x
           | Inr v \<Rightarrow>
               (case to_string v of
                  Inl x \<Rightarrow> Inl x
                | Inr message \<Rightarrow>
                    Inr (''SiftTracking::'' @ operation @ '':Error: '' @ message))))"

definition handleError :: "jsval \<Rightarrow> jsval \<Rightarrow> world \<Rightarrow> js_exception + world" where
  "handleError error method w =
     (case error_line error method of
        Inl x \<Rightarrow> Inl x
      | Inr line \<Rightarrow> Inr (emit (ConsoleError line) w))"

subsection \<open>Promises\<close>

text \<open>
  The state of a promise when its handlers run, if they ever do: \<open>Unsettled\<close> is
  the promise that stays pending for ever.
\<close>

datatype 'a settlement = Fulfilled 'a | Rejected jsval | Unsettled

subsection \<open>\<open>_apiSendEvent\<close>, \<open>sendEvent\<close>\<close>

text \<open>
  The object literal \<open>{"$type": type, ...this.eventData, ...data}\<close>.
\<close>

definition compose :: "jsval \<Rightarrow> obj \<Rightarrow> jsval \<Rightarrow> obj" where
  "compose type template data =
     spread (spread (set_prop ''$type'' type []) template) (own_props data)"

text \<open>
  \<open>_apiSendEvent\<close> up to its return: \<open>Inl\<close> is the value thrown, \<open>Inr\<close> the world
  after the call \<open>_apiPostData(apiUrl, eventData)\<close>, which never throws (it is an
  async function) and whose defaults do not apply (neither argument is undefined).
  The handlers chained on its promise run later: \<open>apiSendEvent_settled\<close>.
\<close>

definition apiSendEvent :: "adapter \<Rightarrow> jsval \<Rightarrow> jsval \<Rightarrow> world \<Rightarrow> jsval + world" where
  "apiSendEvent a type data w =
     (if \<not> isInitialized a then Inl (new_Error ''instance is not initialized'')
      else if \<not> truthy type then Inl (new_Error ''invalid event type'')
      else if class_string data \<noteq> ''[object Object]'' then Inl (new_Error ''invalid custom data'')
      else if \<not> truthy (apiKey (config a)) \<or> \<not> truthy (apiUrl (config a))
        then Inl (new_Error ''invalid API config'')
      else Inr (emit (Fetch (apiUrl (config a)) (compose type (eventData a) data)) w))"

text \<open>
  What the POST comes to. The response of \<open>fetch\<close> has a boolean \<open>ok\<close>;
  \<open>error_message\<close> is whatever that property of the response reads as. \<open>fetch\<close>
  rejects with an Error object (a TypeError on a network error), given by its name
  and message.
\<close>

record response =
  ok :: bool
  error_message :: jsval

datatype fetch_outcome = Responded response | Failed string string | NoAnswer

fun fetch_settlement :: "fetch_outcome \<Rightarrow> response settlement" where
  "fetch_settlement (Responded r) = Fulfilled r"
| "fetch_settlement (Failed n m) = Rejected (JErr n m)"
| "fetch_settlement NoAnswer = Unsettled"

text \<open>
  The handler \<open>response => ...\<close> of \<open>_apiSendEvent\<close>: \<open>Inl\<close> is the value it
  throws, which is the Error it makes for a response that is not ok, or the
  TypeError of a conversion in one of its template literals.
\<close>

definition response_handler :: "jsval \<Rightarrow> response \<Rightarrow> world \<Rightarrow> jsval + world" where
  "response_handler type r w =
     (if ok r then
        (case to_string type of
           Inl x \<Rightarrow> Inl (caught x)
         | Inr t \<Rightarrow> Inr (emit (ConsoleLog (''SiftTracking::sendEvent:Success: '' @ t)) w))
      else
        (case to_string type of
           Inl x \<Rightarrow> Inl (caught x)
         | Inr t \<Rightarrow>
             (case to_string (js_or (error_message r) (JStr ''invalid response'')) of
                Inl x \<Rightarrow> Inl (caught x)
              | Inr m \<Rightarrow> Inl (new_Error (t @ '' '' @ m)))))"

text \<open>
  The chain \<open>.then(response => ...).catch(error => ...)\<close> of \<open>_apiSendEvent\<close>: what
  the first handler throws is caught by the second; \<open>Inl\<close> is an exception thrown
  by the second handler, which nothing catches.
\<close>

definition apiSendEvent_settled :: "jsval \<Rightarrow> response settlement \<Rightarrow> world \<Rightarrow> js_exception + world" where
  "apiSendEvent_settled type s w =
     (case s of
        Unsettled \<Rightarrow> Inr w
      | Rejected error \<Rightarrow> handleError error (JStr ''sendEvent'') w
      | Fulfilled r \<Rightarrow>
          (case response_handler type r w of
             Inr w' \<Rightarrow> Inr w'
           | Inl error \<Rightarrow> handleError error (JStr ''sendEvent'') w))"

text \<open>
  \<open>sendEvent(type, data = {})\<close>: the default replaces an argument that is undefined
  (omitted, or passed as such). The result is the value returned, the adapter and the
  world, or the exception that reaches the caller.
\<close>

definition default_arg :: "jsval \<Rightarrow> jsval \<Rightarrow> jsval" where
  "default_arg v d = (if v = JUndefined then d else v)"

definition sendEvent :: "adapter \<Rightarrow> jsval \<Rightarrow> jsval \<Rightarrow> world \<Rightarrow> js_exception + (jsval \<times> adapter \<times> world)" where
  "sendEvent a type data w =
     (case apiSendEvent a type (default_arg data (JObj [])) w of
        Inr w' \<Rightarrow> Inr (JUndefined, a, w')
      | Inl e \<Rightarrow>
          (case handleError e (JStr ''sendEvent'') w of
             Inl x \<Rightarrow> Inl x
           | Inr w' \<Rightarrow> Inr (JUndefined, a, w')))"

text \<open>The four checks of \<open>_apiSendEvent\<close>, all passed.\<close>

definition passes_checks :: "adapter \<Rightarrow> jsval \<Rightarrow> jsval \<Rightarrow> bool" where
  "passes_checks a type data =
     (isInitialized a \<and> truthy type \<and> class_string data = ''[object Object]''
      \<and> truthy (apiKey (config a)) \<and> truthy (apiUrl (config a)))"

subsection \<open>\<open>_loadSnippet\<close>, \<open>_init\<close>, the constructor\<close>

text \<open>\<open>window._sift = window._sift || []\<close>, and \<open>_sift.push(command)\<close>.\<close>

definition sift_queue :: "world \<Rightarrow> jsval list" where
  "sift_queue w = (case sift w of None \<Rightarrow> [] | Some q \<Rightarrow> q)"

definition sift_create :: "world \<Rightarrow> world" where
  "sift_create w = w\<lparr>sift := Some (sift_queue w)\<rparr>"

definition sift_push :: "jsval \<Rightarrow> world \<Rightarrow> world" where
  "sift_push c w = emit (QueuePush c) (w\<lparr>sift := Some (sift_queue w @ [c])\<rparr>)"

text \<open>
  The executor of the promise of \<open>_loadSnippet\<close>, which runs inside the call: an
  error it throws rejects the promise; otherwise the promise is left to the load and
  error events of the script element. \<open>script_src\<close> is the value assigned to the
  \<open>src\<close> of the element, which the element is taken to accept.
\<close>

definition loadSnippet :: "adapter \<Rightarrow> world \<Rightarrow> string settlement \<times> world" where
  "loadSnippet a w =
     (let c = config a in
      if \<not> truthy (feid c) \<or> \<not> truthy (snippetKey c) \<or> \<not> truthy (snippetSrc c)
      then (Rejected (new_Error ''invalid config''), w)
      else
        let w1 = sift_create w;
            w2 = sift_push (JArr [JStr ''_setAccount'', snippetKey c]) w1;
            w3 = sift_push (JArr [JStr ''_setUserId'', userId c]) w2;
            w4 = sift_push (JArr [JStr ''_setSessionId'', feid c]) w3;
            w5 = sift_push (JArr [JStr ''_trackPageview'']) w4;
            snippetScript = \<lparr>script_async = True, script_type = ''text/javascript'',
                              script_src = snippetSrc c\<rparr>
        in (Unsettled, emit (AppendScript snippetScript) w5))"

text \<open>
  What becomes of the injected script: its load event, its error event, or neither.
  The handlers \<open>onload\<close> and \<open>onerror\<close> settle a promise that is still pending.
\<close>

datatype script_outcome = ScriptLoaded | ScriptFailed | ScriptNever

fun script_settles :: "string settlement \<Rightarrow> script_outcome \<Rightarrow> string settlement" where
  "script_settles Unsettled ScriptLoaded = Fulfilled ''SiftTracking::loadSnippet:Success''"
| "script_settles Unsettled ScriptFailed = Rejected (JStr ''script fetching failed'')"
| "script_settles s out = s"

text \<open>The chain \<open>.then(message => ...).catch(error => ...)\<close> of \<open>_init\<close>.\<close>

definition init_settled :: "adapter \<Rightarrow> string settlement \<Rightarrow> world \<Rightarrow> js_exception + (adapter \<times> world)" where
  "init_settled a s w =
     (case s of
        Unsettled \<Rightarrow> Inr (a, w)
      | Fulfilled message \<Rightarrow> Inr (a\<lparr>snippetLoaded := True\<rparr>, emit (ConsoleLog message) w)
      | Rejected error \<Rightarrow>
          (case handleError error (JStr ''loadSnippet'') w of
             Inl x \<Rightarrow> Inl x
           | Inr w' \<Rightarrow> Inr (a, w')))"

text \<open>
  \<open>_init\<close> up to its return: the adapter, the promise of \<open>_loadSnippet\<close> as the
  executor left it, and the world.
\<close>

definition init :: "navigator \<Rightarrow> adapter \<Rightarrow> world \<Rightarrow> adapter \<times> string settlement \<times> world" where
  "init nav a w =
     (let c = config a;
          a1 = a\<lparr>eventData :=
                 [(''$api_key'', apiKey c),
                  (''$user_id'', userId c),
                  (''$session_id'', feid c),
                  (''$browser'', JObj
                     [(''$user_agent'', JStr (userAgent nav)),
                      (''$accept_language'', JStr (join '','' (languages nav))),
                      (''$content_language'', JStr (language nav))])]\<rparr>;
          a2 = a1\<lparr>isInitialized := True\<rparr>;
          (s, w') = loadSnippet a2 w
      in (a2, s, w'))"

text \<open>
  \<open>constructor(userId = null, feid = '', network = 'default')\<close>. The template
  literal \<open>`${network}:${userId}`\<close>, evaluated for a truthy user id only, converts the
  network, then the user id; when a conversion throws, the constructor throws, and
  no adapter is made.
\<close>

definition constructor :: "navigator \<Rightarrow> jsval \<Rightarrow> jsval \<Rightarrow> jsval \<Rightarrow> world \<Rightarrow> js_exception + (adapter \<times> string settlement \<times> world)" where
  "constructor nav userId_arg feid_arg network_arg w =
     (let uid = default_arg userId_arg JNull;
          fd = default_arg feid_arg (JStr []);
          network = default_arg network_arg (JStr ''default'');
          namespaced =
            (if truthy uid then
               (case to_string network of
                  Inl x \<Rightarrow> Inl x
                | Inr n \<Rightarrow>
                    (case to_string uid of
                       Inl x \<Rightarrow> Inl x
                     | Inr u \<Rightarrow> Inr (JStr (n @ '':'' @ u))))
             else Inr JNull)
      in case namespaced of
           Inl x \<Rightarrow> Inl x
         | Inr user \<Rightarrow>
             Inr (init nav
                    \<lparr>config =
                       \<lparr>userId = user,
                        feid = fd,
                        snippetKey = JStr ''SNIPPET_KEY'',
                        snippetSrc = JStr ''https://cdn.sift.com/s.js'',
                        apiKey = JStr ''API_KEY'',
                        apiUrl = JStr ''https://api.sift.com/v205/events''\<rparr>,
                     eventData = [],
                     isInitialized = False,
                     snippetLoaded = False\<rparr>
                    w))"

subsection \<open>Sequences of calls, and the page's own script\<close>

text \<open>
  A caller's sequence of calls \<open>sendEvent(type, data)\<close> on one adapter, one after the
  other; it stops at the first call that throws.
\<close>

fun sends :: "adapter \<Rightarrow> (jsval \<times> jsval) list \<Rightarrow> world \<Rightarrow> js_exception + (adapter \<times> world)" where
  "sends a [] w = Inr (a, w)"
| "sends a ((type, data) # calls) w =
     (case sendEvent a type data w of
        Inl x \<Rightarrow> Inl x
      | Inr (r, a', w') \<Rightarrow> sends a' calls w')"

text \<open>The value each POST of a world carries under one key, in the order of the POSTs.\<close>

definition post_field :: "string \<Rightarrow> world \<Rightarrow> jsval option list" where
  "post_field k w = map (\<lambda>(url, ev). get_prop ev k) (posts w)"

text \<open>
  The last two lines of the file: \<open>new SiftTracking('userId', 'gl.getFEID()', 'network_name')\<close>
  on a page where nothing has happened yet, in some browser.
\<close>

definition a_navigator :: navigator where
  "a_navigator = \<lparr>userAgent = ''Mozilla/5.0'', languages = [''en-US'', ''en''], language = ''en-US''\<rparr>"

definition fresh_page :: world where
  "fresh_page = \<lparr>sift = None, trace = []\<rparr>"

definition siftTracking :: adapter where
  "siftTracking =
     fst (projr (constructor a_navigator (JStr ''userId'') (JStr ''gl.getFEID()'')
                   (JStr ''network_name'') fresh_page))"

subsection \<open>The specification's wording\<close>

text \<open>
  The Outgoing Event as the specification composes it: the type tag, then the fields
  of the Event Template, then the fields of the caller's data, a later field
  replacing an earlier one with the same key.
\<close>

definition merged_event :: "jsval \<Rightarrow> obj \<Rightarrow> obj \<Rightarrow> (string \<rightharpoonup> jsval)" where
  "merged_event type template data = [''$type'' \<mapsto> type] ++ map_of template ++ map_of data"

text \<open>
  The log line of the Error Normalizer as the specification shapes it,
  \<open>"<Component>::<operation>::Error: <message>"\<close>, for the component SiftTracking.
\<close>

definition spec_error_line :: "string \<Rightarrow> string \<Rightarrow> string" where
  "spec_error_line operation message = ''SiftTracking::'' @ operation @ ''::Error: '' @ message"

section \<open>Properties\<close>

subsection \<open>Objects\<close>

lemma map_of_set_prop: "map_of (set_prop k v ps) = (map_of ps)(k \<mapsto> v)"
  by (induction ps) (auto simp: fun_eq_iff)

lemma keys_set_prop:
  "map fst (set_prop k v ps) = (if k \<in> fst ` set ps then map fst ps else map fst ps @ [k])"
  by (induction ps) auto

lemma wf_set_prop: "wf_obj ps \<Longrightarrow> wf_obj (set_prop k v ps)"
  by (simp add: wf_obj_def keys_set_prop)

lemma wf_spread: "wf_obj target \<Longrightarrow> wf_obj (spread target src)"
  by (induction src arbitrary: target) (auto simp: wf_set_prop)

lemma map_of_spread:
  "wf_obj src \<Longrightarrow> map_of (spread target src) = map_of target ++ map_of src"
proof (induction src arbitrary: target)
  case Nil
  then show ?case by simp
next
  case (Cons p src)
  obtain k v where p: "p = (k, v)" by (cases p)
  from Cons.prems p have k: "k \<notin> fst ` set src" and wf: "wf_obj src"
    by (auto simp: wf_obj_def)
  have "map_of (spread target (p # src)) = map_of (set_prop k v target) ++ map_of src"
    using Cons.IH [OF wf] p by simp
  also have "\<dots> = (map_of target)(k \<mapsto> v) ++ map_of src"
    by (simp only: map_of_set_prop)
  also have "\<dots> = map_of target ++ (map_of src)(k \<mapsto> v)"
  proof (rule ext)
    fix x
    from k have "map_of src k = None" by (simp add: map_of_eq_None_iff)
    then show "((map_of target)(k \<mapsto> v) ++ map_of src) x
                 = (map_of target ++ (map_of src)(k \<mapsto> v)) x"
      by (cases "x = k") (simp_all add: map_add_def split: option.split)
  qed
  also have "\<dots> = map_of target ++ map_of (p # src)"
    using p by simp
  finally show ?case .
qed

lemma get_prop_compose:
  assumes "wf_obj template" and "wf_obj ps"
  shows "get_prop (compose type template (JObj ps)) = merged_event type template ps"
  using assms by (simp add: get_prop_def compose_def merged_event_def map_of_spread fun_eq_iff)

lemma get_prop_compose_template:
  assumes "wf_obj template" and "wf_obj ps" and "k \<in> fst ` set template" and "k \<notin> fst ` set ps"
  shows "get_prop (compose type template (JObj ps)) k = get_prop template k"
proof -
  from assms(4) have "map_of ps k = None"
    by (simp add: map_of_eq_None_iff)
  moreover from assms(3) obtain v where "map_of template k = Some v"
    by (metis map_of_eq_None_iff not_None_eq)
  ultimately show ?thesis
    using get_prop_compose [OF assms(1,2), of type]
    by (simp add: merged_event_def get_prop_def map_add_def)
qed

lemma get_prop_compose_type:
  assumes "wf_obj template" and "wf_obj ps"
    and "''$type'' \<notin> fst ` set template" and "''$type'' \<notin> fst ` set ps"
  shows "get_prop (compose type template (JObj ps)) ''$type'' = Some type"
proof -
  from assms(3,4) have "map_of ps ''$type'' = None" and "map_of template ''$type'' = None"
    by (simp_all add: map_of_eq_None_iff)
  then show ?thesis
    using get_prop_compose [OF assms(1,2), of type]
    by (simp add: merged_event_def get_prop_def map_add_def)
qed

lemma wf_compose: "wf_obj (compose type template data)"
proof -
  have "wf_obj (set_prop ''$type'' type [])"
    by (simp add: wf_obj_def)
  then show ?thesis
    unfolding compose_def by (intro wf_spread)
qed

subsection \<open>Effects\<close>

lemma posts_emit_ConsoleError: "posts (emit (ConsoleError s) w) = posts w"
  by (simp add: posts_def emit_def)

lemma posts_emit_Fetch: "posts (emit (Fetch u d) w) = posts w @ [(u, d)]"
  by (simp add: posts_def emit_def)

lemma plain_object_iff: "class_string d = ''[object Object]'' \<longleftrightarrow> (\<exists>ps. d = JObj ps)"
  by (cases d) simp_all

lemma error_line_new_Error:
  "m \<noteq> [] \<Longrightarrow> tag \<noteq> [] \<Longrightarrow>
   error_line (new_Error m) (JStr tag) = Inr (''SiftTracking::'' @ tag @ '':Error: '' @ m)"
  by (simp add: error_line_def message_value_def new_Error_def js_or_def)

lemma error_line_JErr:
  "tag \<noteq> [] \<Longrightarrow>
   error_line (JErr n m) (JStr tag) =
     Inr (''SiftTracking::'' @ tag @ '':Error: '' @ (if m \<noteq> [] then m else n))"
  by (simp add: error_line_def message_value_def js_or_def)

lemma sendEvent_passes:
  "passes_checks a type (default_arg data (JObj [])) \<Longrightarrow>
   sendEvent a type data w =
     Inr (JUndefined, a,
          emit (Fetch (apiUrl (config a)) (compose type (eventData a) (default_arg data (JObj [])))) w)"
  by (simp add: sendEvent_def apiSendEvent_def passes_checks_def)

subsection \<open>String conversions\<close>

lemma isl_collect: "isl (collect rs) \<longleftrightarrow> (\<exists>r\<in>set rs. isl r)"
  by (induction rs rule: collect.induct) (auto split: sum.splits)

lemma convertible_simps:
  "convertible JUndefined" "convertible JNull" "convertible (JBool b)" "convertible (JNum n)"
  "convertible JNaN" "convertible (JStr s)" "convertible (JErr name m)"
  "convertible (JObj ps) \<longleftrightarrow> map_of ps ''toString'' = None"
  by (simp_all add: convertible_def)

lemma convertible_JArr: "convertible (JArr xs) \<longleftrightarrow> (\<forall>x\<in>set xs. convertible x)"
proof -
  define f where
    "f = (\<lambda>x. case x of JUndefined \<Rightarrow> Inr [] | JNull \<Rightarrow> Inr [] | _ \<Rightarrow> to_string x)"
  have f: "isl (f x) \<longleftrightarrow> \<not> convertible x" for x
    by (cases x) (simp_all add: f_def convertible_def)
  have "isl (to_string (JArr xs)) \<longleftrightarrow> isl (collect (map f xs))"
    by (simp add: f_def split: sum.splits)
  also have "\<dots> \<longleftrightarrow> (\<exists>x\<in>set xs. isl (f x))"
    by (simp add: isl_collect)
  finally show ?thesis
    by (simp add: convertible_def f)
qed

lemma convertible_iff: "convertible v \<longleftrightarrow> (\<exists>s. to_string v = Inr s)"
  by (cases "to_string v") (simp_all add: convertible_def)

lemma handleError_caught:
  "tag \<noteq> [] \<Longrightarrow>
   handleError (caught (TypeError e)) (JStr tag) w =
     Inr (emit (ConsoleError (''SiftTracking::'' @ tag @ '':Error: ''
            @ (if e \<noteq> [] then e else ''TypeError''))) w)"
  by (simp add: handleError_def error_line_JErr)

lemma handleError_new_Error:
  "m \<noteq> [] \<Longrightarrow> tag \<noteq> [] \<Longrightarrow>
   handleError (new_Error m) (JStr tag) w =
     Inr (emit (ConsoleError (''SiftTracking::'' @ tag @ '':Error: '' @ m)) w)"
  by (simp add: handleError_def error_line_new_Error)

subsection \<open>Calls and handlers\<close>

lemma sift_emit: "sift (emit e w) = sift w"
  by (simp add: emit_def)

lemma handleError_sift: "handleError error method w = Inr w' \<Longrightarrow> sift w' = sift w"
  by (auto simp: handleError_def sift_emit split: sum.splits)

lemma response_handler_sift: "response_handler type r w = Inr w' \<Longrightarrow> sift w' = sift w"
  by (auto simp: response_handler_def sift_emit split: if_splits sum.splits)

lemma sendEvent_total: "\<exists>w'. sendEvent a type data w = Inr (JUndefined, a, w')"
  by (auto simp: sendEvent_def apiSendEvent_def handleError_def error_line_new_Error)

lemma sends_total: "\<exists>w'. sends a calls w = Inr (a, w')"
proof (induction calls arbitrary: w)
  case Nil
  then show ?case by simp
next
  case (Cons c calls)
  obtain type data where c: "c = (type, data)" by (cases c)
  obtain w1 where w1: "sendEvent a type data w = Inr (JUndefined, a, w1)"
    using sendEvent_total by blast
  from Cons.IH [of w1] obtain w' where "sends a calls w1 = Inr (a, w')" by blast
  with c w1 show ?case by simp
qed

lemma sends_two:
  assumes "passes_checks a t1 (JObj d1)" and "passes_checks a t2 (JObj d2)"
  shows "sends a [(t1, JObj d1), (t2, JObj d2)] w =
      Inr (a, emit (Fetch (apiUrl (config a)) (compose t2 (eventData a) (JObj d2)))
               (emit (Fetch (apiUrl (config a)) (compose t1 (eventData a) (JObj d1))) w))"
  using assms by (simp add: sendEvent_passes default_arg_def)

lemma post_field_two:
  "post_field k (emit (Fetch u2 e2) (emit (Fetch u1 e1) fresh_page)) = [get_prop e1 k, get_prop e2 k]"
  by (simp add: post_field_def posts_emit_Fetch) (simp add: posts_def fresh_page_def)

lemma loadSnippet_settlement:
  "fst (loadSnippet a w) = Unsettled \<or> fst (loadSnippet a w) = Rejected (new_Error ''invalid config'')"
  by (simp add: loadSnippet_def Let_def)

lemma handleError_invalid_config:
  "handleError (new_Error ''invalid config'') (JStr ''loadSnippet'') w =
     Inr (emit (ConsoleError ''SiftTracking::loadSnippet:Error: invalid config'') w)"
  by (simp add: handleError_def error_line_new_Error)

lemma handleError_script_failed:
  "handleError (JStr ''script fetching failed'') (JStr ''loadSnippet'') w =
     Inr (emit (ConsoleError ''SiftTracking::loadSnippet:Error: script fetching failed'') w)"
  by (simp add: handleError_def error_line_def message_value_def js_or_def)

lemma init_settled_rejected:
  assumes "s = Unsettled \<or> s = Rejected (new_Error ''invalid config'')"
    and "script_settles s out = Rejected e"
  shows "init_settled a (script_settles s out) wl =
           Inr (a, emit (ConsoleError (''SiftTracking::loadSnippet:Error: ''
                  @ (if s = Unsettled then ''script fetching failed'' else ''invalid config''))) wl)"
  using assms
  by (cases out)
    (auto simp: init_settled_def handleError_invalid_config handleError_script_failed)

lemma init_settled_outcomes:
  assumes "s = Unsettled \<or> s = Rejected (new_Error ''invalid config'')"
  shows "\<exists>a' wl'. init_settled a (script_settles s out) wl = Inr (a', wl')
           \<and> isInitialized a' = isInitialized a
           \<and> (\<forall>e. script_settles s out = Rejected e \<longrightarrow>
                 (\<exists>m. wl' = emit (ConsoleError (''SiftTracking::loadSnippet:Error: '' @ m)) wl))"
proof (cases "\<exists>e. script_settles s out = Rejected e")
  case True
  then obtain e where "script_settles s out = Rejected e" by blast
  from init_settled_rejected [OF assms this, of a wl] show ?thesis by blast
next
  case False
  with assms show ?thesis
    by (cases out) (auto simp: init_settled_def)
qed

subsection \<open>The page's own adapter\<close>

lemma siftTracking_eval:
  "siftTracking =
     \<lparr>config =
        \<lparr>userId = JStr ''network_name:userId'', feid = JStr ''gl.getFEID()'',
         snippetKey = JStr ''SNIPPET_KEY'', snippetSrc = JStr ''https://cdn.sift.com/s.js'',
         apiKey = JStr ''API_KEY'', apiUrl = JStr ''https://api.sift.com/v205/events''\<rparr>,
      eventData =
        [(''$api_key'', JStr ''API_KEY''),
         (''$user_id'', JStr ''network_name:userId''),
         (''$session_id'', JStr ''gl.getFEID()''),
         (''$browser'', JObj
            [(''$user_agent'', JStr ''Mozilla/5.0''),
             (''$accept_language'', JStr ''en-US,en''),
             (''$content_language'', JStr ''en-US'')])],
      isInitialized = True, snippetLoaded = False\<rparr>"
  by (simp add: siftTracking_def constructor_def init_def loadSnippet_def default_arg_def
      a_navigator_def Let_def)

lemma siftTracking_passes: "truthy type \<Longrightarrow> passes_checks siftTracking type (JObj ps)"
  by (simp add: siftTracking_eval passes_checks_def)

section \<open>The claims\<close>

text \<open>
  C1. \<open>sendEvent(type, data)\<close> applies its checks in this order: the adapter is
  initialized, else "instance is not initialized"; the type is truthy, else "invalid
  event type"; the data (after the default for an omitted argument) is a plain object,
  else "invalid custom data"; the configuration has a truthy apiKey and apiUrl, else
  "invalid API config". The first check that fails decides the error; it is logged by
  \<open>_handleError\<close> under the tag sendEvent, the call returns, and no POST is issued.
\<close>

theorem sendEvent_validation_order:
  "(\<not> isInitialized a \<longrightarrow>
      sendEvent a type data w =
        Inr (JUndefined, a,
             emit (ConsoleError ''SiftTracking::sendEvent:Error: instance is not initialized'') w))
   \<and> (isInitialized a \<and> \<not> truthy type \<longrightarrow>
      sendEvent a type data w =
        Inr (JUndefined, a,
             emit (ConsoleError ''SiftTracking::sendEvent:Error: invalid event type'') w))
   \<and> (isInitialized a \<and> truthy type \<and> (\<forall>ps. default_arg data (JObj []) \<noteq> JObj ps) \<longrightarrow>
      sendEvent a type data w =
        Inr (JUndefined, a,
             emit (ConsoleError ''SiftTracking::sendEvent:Error: invalid custom data'') w))
   \<and> (isInitialized a \<and> truthy type \<and> (\<exists>ps. default_arg data (JObj []) = JObj ps)
        \<and> \<not> (truthy (apiKey (config a)) \<and> truthy (apiUrl (config a))) \<longrightarrow>
      sendEvent a type data w =
        Inr (JUndefined, a,
             emit (ConsoleError ''SiftTracking::sendEvent:Error: invalid API config'') w))
   \<and> (\<not> passes_checks a type (default_arg data (JObj [])) \<longrightarrow>
        (\<exists>line. sendEvent a type data w =
           Inr (JUndefined, a, emit (ConsoleError (''SiftTracking::sendEvent:Error: '' @ line)) w))
        \<and> (\<forall>r a' w'. sendEvent a type data w = Inr (r, a', w') \<longrightarrow> posts w' = posts w))"
  by (auto simp: sendEvent_def apiSendEvent_def handleError_def error_line_new_Error
      passes_checks_def plain_object_iff posts_emit_ConsoleError)

theorem sendEvent_validation_order_witness:
  "sendEvent (siftTracking\<lparr>isInitialized := False\<rparr>) (JStr []) (JArr []) fresh_page =
     Inr (JUndefined, siftTracking\<lparr>isInitialized := False\<rparr>,
          emit (ConsoleError ''SiftTracking::sendEvent:Error: instance is not initialized'') fresh_page)
   \<and> sendEvent siftTracking (JStr []) (JArr []) fresh_page =
     Inr (JUndefined, siftTracking,
          emit (ConsoleError ''SiftTracking::sendEvent:Error: invalid event type'') fresh_page)
   \<and> sendEvent (siftTracking\<lparr>config := (config siftTracking)\<lparr>apiUrl := JStr []\<rparr>\<rparr>)
        (JStr ''$create_account'') (JArr []) fresh_page =
     Inr (JUndefined, siftTracking\<lparr>config := (config siftTracking)\<lparr>apiUrl := JStr []\<rparr>\<rparr>,
          emit (ConsoleError ''SiftTracking::sendEvent:Error: invalid custom data'') fresh_page)
   \<and> sendEvent (siftTracking\<lparr>config := (config siftTracking)\<lparr>apiUrl := JStr []\<rparr>\<rparr>)
        (JStr ''$create_account'') JUndefined fresh_page =
     Inr (JUndefined, siftTracking\<lparr>config := (config siftTracking)\<lparr>apiUrl := JStr []\<rparr>\<rparr>,
          emit (ConsoleError ''SiftTracking::sendEvent:Error: invalid API config'') fresh_page)"
  using sendEvent_validation_order [of "siftTracking\<lparr>isInitialized := False\<rparr>" "JStr []" "JArr []" fresh_page]
    sendEvent_validation_order [of siftTracking "JStr []" "JArr []" fresh_page]
    sendEvent_validation_order [of "siftTracking\<lparr>config := (config siftTracking)\<lparr>apiUrl := JStr []\<rparr>\<rparr>"
       "JStr ''$create_account''" "JArr []" fresh_page]
    sendEvent_validation_order [of "siftTracking\<lparr>config := (config siftTracking)\<lparr>apiUrl := JStr []\<rparr>\<rparr>"
       "JStr ''$create_account''" JUndefined fresh_page]
  by (simp add: siftTracking_eval default_arg_def)

text \<open>
  C2. A call \<open>sendEvent(type, data)\<close> that passes the four checks POSTs, to the
  configured URL, the object \<open>{"$type": type, ...template, ...data}\<close>. As a mapping
  this object is the merge, in that order, of the type tag, the Event Template and
  the data, a later field replacing an earlier one: every field of the data is in
  the payload with the data's value, whatever the template has under that key.
\<close>

theorem sendEvent_composition:
  assumes "passes_checks a type (JObj ps)" and "wf_obj (eventData a)" and "wf_obj ps"
  shows "sendEvent a type (JObj ps) w =
           Inr (JUndefined, a,
                emit (Fetch (apiUrl (config a)) (compose type (eventData a) (JObj ps))) w)
         \<and> wf_obj (compose type (eventData a) (JObj ps))
         \<and> get_prop (compose type (eventData a) (JObj ps)) = merged_event type (eventData a) ps
         \<and> (\<forall>k v. get_prop ps k = Some v \<longrightarrow>
               get_prop (compose type (eventData a) (JObj ps)) k = Some v)"
proof -
  have sent: "sendEvent a type (JObj ps) w =
           Inr (JUndefined, a,
                emit (Fetch (apiUrl (config a)) (compose type (eventData a) (JObj ps))) w)"
    using sendEvent_passes [of a type "JObj ps" w] assms(1) by (simp add: default_arg_def)
  have merged: "get_prop (compose type (eventData a) (JObj ps)) = merged_event type (eventData a) ps"
    using assms(2,3) by (rule get_prop_compose)
  have "get_prop (compose type (eventData a) (JObj ps)) k = Some v" if "get_prop ps k = Some v" for k v
    using that by (simp add: merged merged_event_def get_prop_def)
  with sent merged wf_compose [of type "eventData a" "JObj ps"] show ?thesis by blast
qed

theorem sendEvent_composition_witness:
  "sendEvent siftTracking (JStr ''$create_account'')
     (JObj [(''custom'', JStr ''var_value''), (''$session_id'', JStr ''mine'')]) fresh_page =
   Inr (JUndefined, siftTracking,
        emit (Fetch (JStr ''https://api.sift.com/v205/events'')
               [(''$type'', JStr ''$create_account''),
                (''$api_key'', JStr ''API_KEY''),
                (''$user_id'', JStr ''network_name:userId''),
                (''$session_id'', JStr ''mine''),
                (''$browser'', JObj
                   [(''$user_agent'', JStr ''Mozilla/5.0''),
                    (''$accept_language'', JStr ''en-US,en''),
                    (''$content_language'', JStr ''en-US'')]),
                (''custom'', JStr ''var_value'')]) fresh_page)
   \<and> get_prop (compose (JStr ''$create_account'') (eventData siftTracking)
         (JObj [(''custom'', JStr ''var_value''), (''$session_id'', JStr ''mine'')])) ''$session_id''
       = Some (JStr ''mine'')"
  using sendEvent_composition [of siftTracking "JStr ''$create_account''"
      "[(''custom'', JStr ''var_value''), (''$session_id'', JStr ''mine'')]" fresh_page]
  by (simp add: siftTracking_eval passes_checks_def wf_obj_def compose_def get_prop_def
      merged_event_def)

text \<open>
  C9. When the data of a call that passes the checks has the key \<open>$type\<close>, the
  payload's \<open>$type\<close> is the data's value, not the \<open>type\<close> argument.
\<close>

theorem sendEvent_data_replaces_type_tag:
  assumes "passes_checks a type (JObj ps)" and "wf_obj ps" and "get_prop ps ''$type'' = Some v"
  shows "sendEvent a type (JObj ps) w =
           Inr (JUndefined, a,
                emit (Fetch (apiUrl (config a)) (compose type (eventData a) (JObj ps))) w)
         \<and> get_prop (compose type (eventData a) (JObj ps)) ''$type'' = Some v"
proof -
  have "sendEvent a type (JObj ps) w =
           Inr (JUndefined, a,
                emit (Fetch (apiUrl (config a)) (compose type (eventData a) (JObj ps))) w)"
    using sendEvent_passes [of a type "JObj ps" w] assms(1) by (simp add: default_arg_def)
  moreover have "get_prop (compose type (eventData a) (JObj ps)) ''$type'' = Some v"
    using assms(2,3) by (simp add: get_prop_def compose_def map_of_spread)
  ultimately show ?thesis by simp
qed

theorem sendEvent_data_replaces_type_tag_witness:
  "sendEvent siftTracking (JStr ''$create_account'') (JObj [(''$type'', JStr ''$login'')]) fresh_page =
     Inr (JUndefined, siftTracking,
          emit (Fetch (JStr ''https://api.sift.com/v205/events'')
                 [(''$type'', JStr ''$login''),
                  (''$api_key'', JStr ''API_KEY''),
                  (''$user_id'', JStr ''network_name:userId''),
                  (''$session_id'', JStr ''gl.getFEID()''),
                  (''$browser'', JObj
                     [(''$user_agent'', JStr ''Mozilla/5.0''),
                      (''$accept_language'', JStr ''en-US,en''),
                      (''$content_language'', JStr ''en-US'')])]) fresh_page)
   \<and> get_prop (compose (JStr ''$create_account'') (eventData siftTracking)
         (JObj [(''$type'', JStr ''$login'')])) ''$type'' = Some (JStr ''$login'')"
  using sendEvent_data_replaces_type_tag [of siftTracking "JStr ''$create_account''"
      "[(''$type'', JStr ''$login'')]" "JStr ''$login''" fresh_page]
  by (simp add: siftTracking_eval passes_checks_def wf_obj_def compose_def get_prop_def)

text \<open>
  C10. A call without the data argument (the argument is undefined) is the call with
  the empty object, and goes on to the POST when the other checks pass. A call with
  null as data is not given the default: on an initialized adapter with a truthy
  type it is rejected as "invalid custom data", and nothing is POSTed.
\<close>

theorem sendEvent_omitted_versus_null:
  "sendEvent a type JUndefined w = sendEvent a type (JObj []) w
   \<and> (passes_checks a type (JObj []) \<longrightarrow>
        sendEvent a type JUndefined w =
          Inr (JUndefined, a,
               emit (Fetch (apiUrl (config a)) (compose type (eventData a) (JObj []))) w))
   \<and> (isInitialized a \<and> truthy type \<longrightarrow>
        sendEvent a type JNull w =
          Inr (JUndefined, a,
               emit (ConsoleError ''SiftTracking::sendEvent:Error: invalid custom data'') w)
        \<and> posts (emit (ConsoleError ''SiftTracking::sendEvent:Error: invalid custom data'') w)
            = posts w)"
  by (auto simp: sendEvent_def apiSendEvent_def handleError_def error_line_new_Error
      passes_checks_def default_arg_def posts_emit_ConsoleError)

theorem sendEvent_omitted_versus_null_witness:
  "sendEvent siftTracking (JStr ''$login'') JUndefined fresh_page =
     Inr (JUndefined, siftTracking,
          emit (Fetch (JStr ''https://api.sift.com/v205/events'')
                 [(''$type'', JStr ''$login''),
                  (''$api_key'', JStr ''API_KEY''),
                  (''$user_id'', JStr ''network_name:userId''),
                  (''$session_id'', JStr ''gl.getFEID()''),
                  (''$browser'', JObj
                     [(''$user_agent'', JStr ''Mozilla/5.0''),
                      (''$accept_language'', JStr ''en-US,en''),
                      (''$content_language'', JStr ''en-US'')])]) fresh_page)
   \<and> sendEvent siftTracking (JStr ''$login'') JNull fresh_page =
     Inr (JUndefined, siftTracking,
          emit (ConsoleError ''SiftTracking::sendEvent:Error: invalid custom data'') fresh_page)"
  using sendEvent_omitted_versus_null [of siftTracking "JStr ''$login''" fresh_page, THEN conjunct2]
  by (simp add: siftTracking_eval passes_checks_def compose_def)

text \<open>
  C3. \<open>sendEvent\<close> never throws and always returns undefined, whatever the adapter,
  the type and the data are. When a check fails, the call appends one error line
  tagged sendEvent and nothing else; when the checks pass, it issues the POST. The
  handlers on the POST never throw either. A response that is not ok, a conversion
  that throws in the handler of the response (the type has no string conversion),
  and a rejection of \<open>fetch\<close> each append exactly one error line tagged sendEvent;
  a response that is ok, for a type that has a string conversion, appends the
  success notice; a POST that never completes appends nothing.
\<close>

theorem sendEvent_never_throws:
  "(\<exists>w'. sendEvent a type data w = Inr (JUndefined, a, w')
      \<and> (if passes_checks a type (default_arg data (JObj []))
          then w' = emit (Fetch (apiUrl (config a))
                       (compose type (eventData a) (default_arg data (JObj [])))) w
          else \<exists>m. w' = emit (ConsoleError (''SiftTracking::sendEvent:Error: '' @ m)) w))
   \<and> apiSendEvent_settled type (fetch_settlement NoAnswer) w1 = Inr w1
   \<and> (\<forall>t. ok r \<and> to_string type = Inr t \<longrightarrow>
        apiSendEvent_settled type (fetch_settlement (Responded r)) w1 =
          Inr (emit (ConsoleLog (''SiftTracking::sendEvent:Success: '' @ t)) w1))
   \<and> (\<forall>t m. \<not> ok r \<and> to_string type = Inr t
          \<and> to_string (js_or (error_message r) (JStr ''invalid response'')) = Inr m \<longrightarrow>
        apiSendEvent_settled type (fetch_settlement (Responded r)) w1 =
          Inr (emit (ConsoleError (''SiftTracking::sendEvent:Error: '' @ t @ '' '' @ m)) w1))
   \<and> (\<forall>e. to_string type = Inl (TypeError e) \<longrightarrow>
        apiSendEvent_settled type (fetch_settlement (Responded r)) w1 =
          Inr (emit (ConsoleError (''SiftTracking::sendEvent:Error: ''
                 @ (if e \<noteq> [] then e else ''TypeError''))) w1))
   \<and> (\<not> ok r \<or> \<not> convertible type \<longrightarrow>
        (\<exists>m. apiSendEvent_settled type (fetch_settlement (Responded r)) w1 =
           Inr (emit (ConsoleError (''SiftTracking::sendEvent:Error: '' @ m)) w1)))
   \<and> apiSendEvent_settled type (fetch_settlement (Failed n m)) w1 =
        Inr (emit (ConsoleError (''SiftTracking::sendEvent:Error: '' @ (if m \<noteq> [] then m else n))) w1)"
proof -
  have sync: "\<exists>w'. sendEvent a type data w = Inr (JUndefined, a, w')
      \<and> (if passes_checks a type (default_arg data (JObj []))
          then w' = emit (Fetch (apiUrl (config a))
                       (compose type (eventData a) (default_arg data (JObj [])))) w
          else \<exists>m. w' = emit (ConsoleError (''SiftTracking::sendEvent:Error: '' @ m)) w)"
  proof (cases "passes_checks a type (default_arg data (JObj []))")
    case True
    then show ?thesis by (simp add: sendEvent_passes)
  next
    case False
    then show ?thesis
      by (auto simp: sendEvent_def apiSendEvent_def handleError_def error_line_new_Error
          passes_checks_def)
  qed
  have none: "apiSendEvent_settled type (fetch_settlement NoAnswer) w1 = Inr w1"
    by (simp add: apiSendEvent_settled_def)
  have good: "\<forall>t. ok r \<and> to_string type = Inr t \<longrightarrow>
        apiSendEvent_settled type (fetch_settlement (Responded r)) w1 =
          Inr (emit (ConsoleLog (''SiftTracking::sendEvent:Success: '' @ t)) w1)"
    by (simp add: apiSendEvent_settled_def response_handler_def)
  have bad: "\<forall>t m. \<not> ok r \<and> to_string type = Inr t
          \<and> to_string (js_or (error_message r) (JStr ''invalid response'')) = Inr m \<longrightarrow>
        apiSendEvent_settled type (fetch_settlement (Responded r)) w1 =
          Inr (emit (ConsoleError (''SiftTracking::sendEvent:Error: '' @ t @ '' '' @ m)) w1)"
    by (simp add: apiSendEvent_settled_def response_handler_def handleError_new_Error)
  have thrown: "\<forall>e. to_string type = Inl (TypeError e) \<longrightarrow>
        apiSendEvent_settled type (fetch_settlement (Responded r)) w1 =
          Inr (emit (ConsoleError (''SiftTracking::sendEvent:Error: ''
                 @ (if e \<noteq> [] then e else ''TypeError''))) w1)"
    using handleError_caught [of "''sendEvent''" _ w1]
    by (simp add: apiSendEvent_settled_def response_handler_def)
  have one: "\<exists>m. apiSendEvent_settled type (fetch_settlement (Responded r)) w1 =
           Inr (emit (ConsoleError (''SiftTracking::sendEvent:Error: '' @ m)) w1)"
    if "\<not> ok r \<or> \<not> convertible type"
  proof (cases "to_string type")
    case (Inl x)
    obtain e where "x = TypeError e" by (cases x)
    with Inl thrown show ?thesis by blast
  next
    case t: (Inr t)
    with that have nok: "\<not> ok r" by (simp add: convertible_def)
    show ?thesis
    proof (cases "to_string (js_or (error_message r) (JStr ''invalid response''))")
      case (Inl x)
      obtain e where "x = TypeError e" by (cases x)
      with Inl t nok have "apiSendEvent_settled type (fetch_settlement (Responded r)) w1 =
          handleError (caught (TypeError e)) (JStr ''sendEvent'') w1"
        by (simp add: apiSendEvent_settled_def response_handler_def)
      also have "\<dots> = Inr (emit (ConsoleError (''SiftTracking::sendEvent:Error: ''
                 @ (if e \<noteq> [] then e else ''TypeError''))) w1)"
        using handleError_caught [of "''sendEvent''" e w1] by simp
      finally show ?thesis by blast
    next
      case (Inr m)
      with t nok bad show ?thesis by blast
    qed
  qed
  have failed: "apiSendEvent_settled type (fetch_settlement (Failed n m)) w1 =
        Inr (emit (ConsoleError (''SiftTracking::sendEvent:Error: '' @ (if m \<noteq> [] then m else n))) w1)"
    by (simp add: apiSendEvent_settled_def handleError_def error_line_JErr)
  show ?thesis
    by (intro conjI impI; (rule sync none good bad thrown failed | (rule one, assumption)))
qed

theorem sendEvent_never_throws_witness:
  "sendEvent siftTracking (JStr ''$login'') (JNum 7) fresh_page =
     Inr (JUndefined, siftTracking,
          emit (ConsoleError ''SiftTracking::sendEvent:Error: invalid custom data'') fresh_page)
   \<and> apiSendEvent_settled (JStr ''$login'')
        (fetch_settlement (Responded \<lparr>ok = True, error_message = JUndefined\<rparr>)) fresh_page =
       Inr (emit (ConsoleLog ''SiftTracking::sendEvent:Success: $login'') fresh_page)
   \<and> apiSendEvent_settled (JStr ''$login'')
        (fetch_settlement (Responded \<lparr>ok = False, error_message = JUndefined\<rparr>)) fresh_page =
       Inr (emit (ConsoleError ''SiftTracking::sendEvent:Error: $login invalid response'') fresh_page)
   \<and> apiSendEvent_settled (JObj [(''toString'', JNum 1)])
        (fetch_settlement (Responded \<lparr>ok = True, error_message = JUndefined\<rparr>)) fresh_page =
       Inr (emit (ConsoleError
                    ''SiftTracking::sendEvent:Error: Cannot convert object to primitive value'')
              fresh_page)
   \<and> apiSendEvent_settled (JStr ''$login'')
        (fetch_settlement (Failed ''TypeError'' ''Failed to fetch'')) fresh_page =
       Inr (emit (ConsoleError ''SiftTracking::sendEvent:Error: Failed to fetch'') fresh_page)"
  using sendEvent_never_throws [where a = siftTracking and type = "JStr ''$login''"
      and data = "JNum 7" and w = fresh_page and ?w1.0 = fresh_page
      and r = "\<lparr>ok = True, error_message = JUndefined\<rparr>"
      and n = "''TypeError''" and m = "''Failed to fetch''"]
    sendEvent_never_throws [where a = siftTracking and type = "JStr ''$login''"
      and data = "JNum 7" and w = fresh_page and ?w1.0 = fresh_page
      and r = "\<lparr>ok = False, error_message = JUndefined\<rparr>"
      and n = "''TypeError''" and m = "''Failed to fetch''"]
    sendEvent_never_throws [where a = siftTracking and type = "JObj [(''toString'', JNum 1)]"
      and data = "JNum 7" and w = fresh_page and ?w1.0 = fresh_page
      and r = "\<lparr>ok = True, error_message = JUndefined\<rparr>"
      and n = "''TypeError''" and m = "''Failed to fetch''"]
  by (auto simp: siftTracking_eval passes_checks_def default_arg_def js_or_def sendEvent_def
      apiSendEvent_def handleError_def error_line_new_Error)

text \<open>
  C4, as the specification states it, gives the log line the shape
  \<open>"<Component>::<operation>::Error: <message>"\<close>. The line \<open>_handleError\<close> writes has a
  single colon between the operation and \<open>Error\<close>.
\<close>

theorem handleError_shape_counterexample:
  "handleError (new_Error ''invalid event type'') (JStr ''sendEvent'') fresh_page
     = Inr (emit (ConsoleError ''SiftTracking::sendEvent:Error: invalid event type'') fresh_page)
   \<and> handleError (new_Error ''invalid event type'') (JStr ''sendEvent'') fresh_page
     \<noteq> Inr (emit (ConsoleError (spec_error_line ''sendEvent'' ''invalid event type'')) fresh_page)"
  by (simp add: handleError_def error_line_new_Error spec_error_line_def emit_def fresh_page_def)

text \<open>
  C4, amended. Take a failure value other than null and undefined, and an operation
  tag, such that the operation to print (the tag, or \<open>General\<close> when the tag is
  missing or falsy) and the value to print have string conversions, as strings,
  numbers, booleans, Error objects and plain objects without an own \<open>toString\<close>
  property have. The value to print is the failure's \<open>message\<close> when that is truthy
  (the message of an Error object that has one); else the failure itself when it is
  truthy (a non-empty string as it is); else \<open>UNKNOWN\<close>. Then \<open>_handleError\<close> writes
  exactly one line \<open>"SiftTracking::<operation>:Error: <message>"\<close> to the error
  console, and does not throw.
\<close>

theorem handleError_line:
  assumes "error \<noteq> JNull" and "error \<noteq> JUndefined"
    and "to_string (js_or method (JStr ''General'')) = Inr operation"
    and "message_value error = Inr v" and "to_string v = Inr message"
  shows "handleError error method w =
           Inr (emit (ConsoleError (''SiftTracking::'' @ operation @ '':Error: '' @ message)) w)
         \<and> (\<not> truthy method \<longrightarrow> operation = ''General'')
         \<and> (\<forall>tag. method = JStr tag \<and> tag \<noteq> [] \<longrightarrow> operation = tag)
         \<and> (\<forall>n m. error = JErr n m \<and> m \<noteq> [] \<longrightarrow> message = m)
         \<and> (\<forall>s. error = JStr s \<and> s \<noteq> [] \<longrightarrow> message = s)
         \<and> (\<not> truthy error \<longrightarrow> message = ''UNKNOWN'')
         \<and> (\<forall>m. get_message error = Inr m \<and> truthy m \<longrightarrow> v = m)
         \<and> (\<forall>m. get_message error = Inr m \<and> \<not> truthy m \<and> truthy error \<longrightarrow> v = error)"
proof -
  obtain m0 where m0: "get_message error = Inr m0"
    using assms(1,2) by (cases error) auto
  with assms(4) have v: "v = js_or (js_or m0 error) (JStr ''UNKNOWN'')"
    by (simp add: message_value_def)
  have line: "handleError error method w =
           Inr (emit (ConsoleError (''SiftTracking::'' @ operation @ '':Error: '' @ message)) w)"
    using assms(3-5) by (simp add: handleError_def error_line_def)
  have c1: "\<not> truthy method \<longrightarrow> operation = ''General''"
    using assms(3) by (auto simp: js_or_def)
  have c2: "\<forall>tag. method = JStr tag \<and> tag \<noteq> [] \<longrightarrow> operation = tag"
    using assms(3) by (auto simp: js_or_def)
  have c3: "\<forall>n m. error = JErr n m \<and> m \<noteq> [] \<longrightarrow> message = m"
    using assms(5) m0 by (auto simp: v js_or_def)
  have c4: "\<forall>s. error = JStr s \<and> s \<noteq> [] \<longrightarrow> message = s"
    using assms(5) m0 by (auto simp: v js_or_def)
  have falsy: "\<not> truthy m0" if "\<not> truthy error"
    using that m0 by (cases error) auto
  have c5: "\<not> truthy error \<longrightarrow> message = ''UNKNOWN''"
    using assms(5) falsy by (auto simp: v js_or_def)
  have c6: "\<forall>m. get_message error = Inr m \<and> truthy m \<longrightarrow> v = m"
    using m0 by (auto simp: v js_or_def)
  have c7: "\<forall>m. get_message error = Inr m \<and> \<not> truthy m \<and> truthy error \<longrightarrow> v = error"
    using m0 by (auto simp: v js_or_def)
  show ?thesis
    by (intro conjI line c1 c2 c3 c4 c5 c6 c7)
qed

theorem handleError_line_witness:
  "handleError (JStr ''script fetching failed'') (JStr ''loadSnippet'') fresh_page =
     Inr (emit (ConsoleError ''SiftTracking::loadSnippet:Error: script fetching failed'') fresh_page)
   \<and> handleError (new_Error ''invalid config'') JUndefined fresh_page =
     Inr (emit (ConsoleError ''SiftTracking::General:Error: invalid config'') fresh_page)
   \<and> handleError (JNum 0) (JStr ''sendEvent'') fresh_page =
     Inr (emit (ConsoleError ''SiftTracking::sendEvent:Error: UNKNOWN'') fresh_page)
   \<and> handleError (JObj []) (JStr ''sendEvent'') fresh_page =
     Inr (emit (ConsoleError ''SiftTracking::sendEvent:Error: [object Object]'') fresh_page)"
  using handleError_line [of "JStr ''script fetching failed''" "JStr ''loadSnippet''"
      "''loadSnippet''" "JStr ''script fetching failed''" "''script fetching failed''" fresh_page,
      THEN conjunct1]
    handleError_line [of "new_Error ''invalid config''" JUndefined
      "''General''" "JStr ''invalid config''" "''invalid config''" fresh_page, THEN conjunct1]
    handleError_line [of "JNum 0" "JStr ''sendEvent''"
      "''sendEvent''" "JStr ''UNKNOWN''" "''UNKNOWN''" fresh_page, THEN conjunct1]
    handleError_line [of "JObj []" "JStr ''sendEvent''"
      "''sendEvent''" "JObj []" "''[object Object]''" fresh_page, THEN conjunct1]
  by (simp add: new_Error_def message_value_def js_or_def get_prop_def)

text \<open>
  C5, as the specification states it, holds of every triple of arguments. For a
  truthy user id that has no string conversion the constructor throws a TypeError
  where it namespaces the user id, before \<open>_init\<close> runs: there is no adapter.
\<close>

theorem constructor_throws_counterexample:
  "constructor a_navigator (JObj [(''toString'', JNum 1)]) (JStr ''f'') (JStr ''n'') fresh_page
     = Inl (TypeError ''Cannot convert object to primitive value'')"
  by (simp add: constructor_def default_arg_def)

text \<open>
  C5, amended. For every triple of arguments whose user id is falsy, or whose
  network and user id both have string conversions, the constructor returns an
  adapter that is initialized and holds the Event Template built from its
  configuration and the browser's metadata. Whatever then becomes of the snippet
  (loaded, failed, never settled, or rejected by the loader itself), the handlers of
  \<open>_init\<close> do not throw and leave the adapter initialized; when the load is rejected
  they append exactly one error line tagged loadSnippet.
\<close>

theorem constructor_initializes:
  assumes "truthy uid \<longrightarrow> convertible (default_arg net (JStr ''default'')) \<and> convertible uid"
  shows "\<exists>a s w'. constructor nav uid fd net w = Inr (a, s, w')
     \<and> isInitialized a
     \<and> eventData a =
         [(''$api_key'', apiKey (config a)),
          (''$user_id'', userId (config a)),
          (''$session_id'', feid (config a)),
          (''$browser'', JObj
             [(''$user_agent'', JStr (userAgent nav)),
              (''$accept_language'', JStr (join '','' (languages nav))),
              (''$content_language'', JStr (language nav))])]
     \<and> (\<forall>out wl. \<exists>a' wl'.
            init_settled a (script_settles s out) wl = Inr (a', wl')
            \<and> isInitialized a'
            \<and> (\<forall>e. script_settles s out = Rejected e \<longrightarrow>
                  (\<exists>m. wl' = emit (ConsoleError (''SiftTracking::loadSnippet:Error: '' @ m)) wl)))"
proof -
  have "\<exists>user. (if truthy (default_arg uid JNull) then
               (case to_string (default_arg net (JStr ''default'')) of
                  Inl x \<Rightarrow> Inl x
                | Inr n \<Rightarrow>
                    (case to_string (default_arg uid JNull) of
                       Inl x \<Rightarrow> Inl x
                     | Inr u \<Rightarrow> Inr (JStr (n @ '':'' @ u))))
             else Inr JNull) = Inr user"
  proof (cases "truthy (default_arg uid JNull)")
    case True
    then have t: "truthy uid" and d: "default_arg uid JNull = uid"
      by (auto simp: default_arg_def split: if_splits)
    with assms obtain n u where "to_string (default_arg net (JStr ''default'')) = Inr n"
      and "to_string uid = Inr u"
      by (auto simp: convertible_iff)
    with True d show ?thesis by simp
  next
    case False
    then show ?thesis by simp
  qed
  then obtain a0 where c0: "constructor nav uid fd net w = Inr (init nav a0 w)"
    by (auto simp: constructor_def Let_def)
  obtain a s w' where i: "init nav a0 w = (a, s, w')"
    by (cases "init nav a0 w")
  with c0 have c: "constructor nav uid fd net w = Inr (a, s, w')" by simp
  from i have init: "isInitialized a"
    by (auto simp: init_def Let_def split: prod.splits)
  from i have tpl: "eventData a =
         [(''$api_key'', apiKey (config a)),
          (''$user_id'', userId (config a)),
          (''$session_id'', feid (config a)),
          (''$browser'', JObj
             [(''$user_agent'', JStr (userAgent nav)),
              (''$accept_language'', JStr (join '','' (languages nav))),
              (''$content_language'', JStr (language nav))])]"
    by (auto simp: init_def Let_def split: prod.splits)
  from i have "\<exists>b v. s = fst (loadSnippet b v)"
    by (auto simp: init_def Let_def split: prod.splits) (metis fst_conv)
  then have s: "s = Unsettled \<or> s = Rejected (new_Error ''invalid config'')"
    using loadSnippet_settlement by auto
  have later: "\<exists>a' wl'.
            init_settled a (script_settles s out) wl = Inr (a', wl')
            \<and> isInitialized a'
            \<and> (\<forall>e. script_settles s out = Rejected e \<longrightarrow>
                  (\<exists>m. wl' = emit (ConsoleError (''SiftTracking::loadSnippet:Error: '' @ m)) wl))"
    for out wl
    using init_settled_outcomes [OF s, of a out wl] init by auto
  from c init tpl later show ?thesis by blast
qed

theorem constructor_initializes_witness:
  "isInitialized (fst (projr (constructor a_navigator (JStr ''userId'') (JStr []) JUndefined fresh_page)))
   \<and> fst (snd (projr (constructor a_navigator (JStr ''userId'') (JStr []) JUndefined fresh_page)))
       = Rejected (new_Error ''invalid config'')
   \<and> userId (config (fst (projr
         (constructor a_navigator (JStr ''userId'') (JStr []) JUndefined fresh_page))))
       = JStr ''default:userId''
   \<and> init_settled siftTracking (script_settles Unsettled ScriptFailed) fresh_page =
       Inr (siftTracking,
            emit (ConsoleError ''SiftTracking::loadSnippet:Error: script fetching failed'') fresh_page)"
  using constructor_initializes [of "JStr ''userId''" JUndefined a_navigator "JStr []" fresh_page]
  by (simp add: convertible_simps default_arg_def)
    (simp add: constructor_def init_def loadSnippet_def default_arg_def Let_def init_settled_def
      handleError_script_failed)

text \<open>
  C6. When \<open>feid\<close>, \<open>snippetKey\<close> or \<open>snippetSrc\<close> is falsy, \<open>_loadSnippet\<close> rejects
  its promise with the error "invalid config" and leaves the page as it was: nothing
  is pushed on the queue, no script element is appended. So does \<open>_init\<close>. The
  rejection reaches the same handler as the rejection by the script's error event,
  and each ends in one error line tagged loadSnippet.
\<close>

theorem loadSnippet_invalid_config:
  assumes "\<not> truthy (feid (config a)) \<or> \<not> truthy (snippetKey (config a))
           \<or> \<not> truthy (snippetSrc (config a))"
  shows "loadSnippet a w = (Rejected (new_Error ''invalid config''), w)
         \<and> snd (init nav a w) = (Rejected (new_Error ''invalid config''), w)
         \<and> init_settled b (script_settles (fst (loadSnippet a w)) out) wl =
             Inr (b, emit (ConsoleError ''SiftTracking::loadSnippet:Error: invalid config'') wl)
         \<and> init_settled b (script_settles Unsettled ScriptFailed) wl =
             Inr (b, emit (ConsoleError ''SiftTracking::loadSnippet:Error: script fetching failed'') wl)"
proof -
  have load: "loadSnippet a' w = (Rejected (new_Error ''invalid config''), w)"
    if "config a' = config a" for a'
    using assms that by (auto simp: loadSnippet_def Let_def)
  have "snd (init nav a w) = (Rejected (new_Error ''invalid config''), w)"
    by (simp add: init_def Let_def load)
  moreover have "init_settled b (script_settles (fst (loadSnippet a w)) out) wl =
             Inr (b, emit (ConsoleError ''SiftTracking::loadSnippet:Error: invalid config'') wl)"
    by (simp add: load init_settled_def handleError_invalid_config)
  moreover have "init_settled b (script_settles Unsettled ScriptFailed) wl =
             Inr (b, emit (ConsoleError ''SiftTracking::loadSnippet:Error: script fetching failed'') wl)"
    by (simp add: init_settled_def handleError_script_failed)
  ultimately show ?thesis by (simp add: load)
qed

theorem loadSnippet_invalid_config_witness:
  "loadSnippet (siftTracking\<lparr>config := (config siftTracking)\<lparr>feid := JStr []\<rparr>\<rparr>) fresh_page
     = (Rejected (new_Error ''invalid config''), fresh_page)
   \<and> init_settled siftTracking
        (script_settles
           (fst (loadSnippet (siftTracking\<lparr>config := (config siftTracking)\<lparr>feid := JStr []\<rparr>\<rparr>)
                   fresh_page))
           ScriptLoaded) fresh_page =
       Inr (siftTracking,
            emit (ConsoleError ''SiftTracking::loadSnippet:Error: invalid config'') fresh_page)"
  using loadSnippet_invalid_config
    [of "siftTracking\<lparr>config := (config siftTracking)\<lparr>feid := JStr []\<rparr>\<rparr>" fresh_page
        a_navigator siftTracking ScriptLoaded fresh_page]
  by auto

text \<open>
  C7. When \<open>feid\<close>, \<open>snippetKey\<close> and \<open>snippetSrc\<close> are truthy, \<open>_loadSnippet\<close>
  appends to the global queue (created empty when the global is not set) the four
  commands \<open>_setAccount\<close>, \<open>_setUserId\<close>, \<open>_setSessionId\<close>, \<open>_trackPageview\<close>,
  in this order, and only then appends the script element. The adapter only ever
  appends to the queue: \<open>_loadSnippet\<close> extends it, and \<open>sendEvent\<close> and the two
  promise handlers leave it as it is.
\<close>

theorem loadSnippet_queue:
  "(truthy (feid (config a)) \<and> truthy (snippetKey (config a)) \<and> truthy (snippetSrc (config a)) \<longrightarrow>
      loadSnippet a w =
        (Unsettled,
         \<lparr>sift = Some (sift_queue w @
                   [JArr [JStr ''_setAccount'', snippetKey (config a)],
                    JArr [JStr ''_setUserId'', userId (config a)],
                    JArr [JStr ''_setSessionId'', feid (config a)],
                    JArr [JStr ''_trackPageview'']]),
          trace = trace w @
                   [QueuePush (JArr [JStr ''_setAccount'', snippetKey (config a)]),
                    QueuePush (JArr [JStr ''_setUserId'', userId (config a)]),
                    QueuePush (JArr [JStr ''_setSessionId'', feid (config a)]),
                    QueuePush (JArr [JStr ''_trackPageview'']),
                    AppendScript \<lparr>script_async = True, script_type = ''text/javascript'',
                                   script_src = snippetSrc (config a)\<rparr>]\<rparr>))
   \<and> (\<exists>cs. sift_queue (snd (loadSnippet a w)) = sift_queue w @ cs)
   \<and> (\<forall>r a' w'. sendEvent a type data w = Inr (r, a', w') \<longrightarrow> sift w' = sift w)
   \<and> (\<forall>w'. apiSendEvent_settled type s w = Inr w' \<longrightarrow> sift w' = sift w)
   \<and> (\<forall>a' w'. init_settled a s' w = Inr (a', w') \<longrightarrow> sift w' = sift w)"
proof -
  have load: "loadSnippet a w =
        (Unsettled,
         \<lparr>sift = Some (sift_queue w @
                   [JArr [JStr ''_setAccount'', snippetKey (config a)],
                    JArr [JStr ''_setUserId'', userId (config a)],
                    JArr [JStr ''_setSessionId'', feid (config a)],
                    JArr [JStr ''_trackPageview'']]),
          trace = trace w @
                   [QueuePush (JArr [JStr ''_setAccount'', snippetKey (config a)]),
                    QueuePush (JArr [JStr ''_setUserId'', userId (config a)]),
                    QueuePush (JArr [JStr ''_setSessionId'', feid (config a)]),
                    QueuePush (JArr [JStr ''_trackPageview'']),
                    AppendScript \<lparr>script_async = True, script_type = ''text/javascript'',
                                   script_src = snippetSrc (config a)\<rparr>]\<rparr>)"
    if "truthy (feid (config a)) \<and> truthy (snippetKey (config a)) \<and> truthy (snippetSrc (config a))"
    using that
    by (simp add: loadSnippet_def Let_def sift_create_def sift_push_def emit_def sift_queue_def)
  have append: "\<exists>cs. sift_queue (snd (loadSnippet a w)) = sift_queue w @ cs"
  proof (cases "truthy (feid (config a)) \<and> truthy (snippetKey (config a)) \<and> truthy (snippetSrc (config a))")
    case True
    show ?thesis by (simp add: load [OF True] sift_queue_def)
  next
    case False
    then show ?thesis by (auto simp: loadSnippet_def Let_def)
  qed
  have send: "\<forall>r a' w'. sendEvent a type data w = Inr (r, a', w') \<longrightarrow> sift w' = sift w"
    by (auto simp: sendEvent_def apiSendEvent_def sift_emit split: if_splits sum.splits
        dest: handleError_sift)
  have posted: "\<forall>w'. apiSendEvent_settled type s w = Inr w' \<longrightarrow> sift w' = sift w"
    by (auto simp: apiSendEvent_settled_def split: settlement.splits sum.splits
        dest: handleError_sift response_handler_sift)
  have loaded: "\<forall>a' w'. init_settled a s' w = Inr (a', w') \<longrightarrow> sift w' = sift w"
    by (auto simp: init_settled_def sift_emit split: settlement.splits sum.splits
        dest: handleError_sift)
  from load append send posted loaded show ?thesis
    by (intro conjI impI) assumption+
qed

theorem loadSnippet_queue_witness:
  "loadSnippet siftTracking \<lparr>sift = Some [JArr [JStr ''_earlier'']], trace = []\<rparr> =
     (Unsettled,
      \<lparr>sift = Some [JArr [JStr ''_earlier''],
                    JArr [JStr ''_setAccount'', JStr ''SNIPPET_KEY''],
                    JArr [JStr ''_setUserId'', JStr ''network_name:userId''],
                    JArr [JStr ''_setSessionId'', JStr ''gl.getFEID()''],
                    JArr [JStr ''_trackPageview'']],
       trace = [QueuePush (JArr [JStr ''_setAccount'', JStr ''SNIPPET_KEY'']),
                QueuePush (JArr [JStr ''_setUserId'', JStr ''network_name:userId'']),
                QueuePush (JArr [JStr ''_setSessionId'', JStr ''gl.getFEID()'']),
                QueuePush (JArr [JStr ''_trackPageview'']),
                AppendScript \<lparr>script_async = True, script_type = ''text/javascript'',
                               script_src = JStr ''https://cdn.sift.com/s.js''\<rparr>]\<rparr>)"
  using loadSnippet_queue [of siftTracking "\<lparr>sift = Some [JArr [JStr ''_earlier'']], trace = []\<rparr>",
      THEN conjunct1]
  by (simp add: siftTracking_eval sift_queue_def)

text \<open>
  C8, as the specification states it, has each of two sequential valid sends with
  different types carry its own, distinct type tag. Two sends whose data both hold
  \<open>$type\<close> carry the data's tag, the same in both.
\<close>

theorem sendEvent_type_tag_counterexample:
  "map_sum id (post_field ''$type'' \<circ> snd)
     (sends siftTracking
        [(JStr ''$login'', JObj [(''$type'', JStr ''x'')]),
         (JStr ''$logout'', JObj [(''$type'', JStr ''x'')])] fresh_page)
     = Inr [Some (JStr ''x''), Some (JStr ''x'')]
   \<and> map_sum id (post_field ''$type'' \<circ> snd)
     (sends siftTracking
        [(JStr ''$login'', JObj [(''$type'', JStr ''x'')]),
         (JStr ''$logout'', JObj [(''$type'', JStr ''x'')])] fresh_page)
     \<noteq> Inr [Some (JStr ''$login''), Some (JStr ''$logout'')]"
proof -
  have "sends siftTracking
        [(JStr ''$login'', JObj [(''$type'', JStr ''x'')]),
         (JStr ''$logout'', JObj [(''$type'', JStr ''x'')])] fresh_page =
      Inr (siftTracking,
           emit (Fetch (apiUrl (config siftTracking))
                   (compose (JStr ''$logout'') (eventData siftTracking) (JObj [(''$type'', JStr ''x'')])))
             (emit (Fetch (apiUrl (config siftTracking))
                      (compose (JStr ''$login'') (eventData siftTracking) (JObj [(''$type'', JStr ''x'')])))
                fresh_page))"
    by (rule sends_two) (simp_all add: siftTracking_passes)
  then show ?thesis
    by (simp add: post_field_two) (simp add: siftTracking_eval compose_def get_prop_def)
qed

text \<open>
  C8, amended. No call of \<open>sendEvent\<close> changes the adapter, and so the Event
  Template: every sequence of calls returns with the adapter it started with. Two
  sequential sends that pass the checks issue two POSTs; under every key of the
  template that the data of neither call holds, both payloads carry the template's
  value; and the \<open>$type\<close> of each payload is the type of its own call when neither
  the template nor the call's data holds the key \<open>$type\<close>.
\<close>

theorem sendEvent_keeps_template:
  "(\<exists>w'. sends a calls w = Inr (a, w'))
   \<and> (passes_checks a t1 (JObj d1) \<and> passes_checks a t2 (JObj d2)
        \<and> wf_obj (eventData a) \<and> wf_obj d1 \<and> wf_obj d2 \<longrightarrow>
       (\<exists>w'. sends a [(t1, JObj d1), (t2, JObj d2)] w = Inr (a, w')
          \<and> posts w' = posts w @
               [(apiUrl (config a), compose t1 (eventData a) (JObj d1)),
                (apiUrl (config a), compose t2 (eventData a) (JObj d2))])
       \<and> (\<forall>k. k \<in> fst ` set (eventData a) \<and> k \<notin> fst ` set d1 \<and> k \<notin> fst ` set d2 \<longrightarrow>
             get_prop (compose t1 (eventData a) (JObj d1)) k = get_prop (eventData a) k
             \<and> get_prop (compose t2 (eventData a) (JObj d2)) k = get_prop (eventData a) k)
       \<and> (''$type'' \<notin> fst ` set (eventData a) \<and> ''$type'' \<notin> fst ` set d1 \<longrightarrow>
             get_prop (compose t1 (eventData a) (JObj d1)) ''$type'' = Some t1)
       \<and> (''$type'' \<notin> fst ` set (eventData a) \<and> ''$type'' \<notin> fst ` set d2 \<longrightarrow>
             get_prop (compose t2 (eventData a) (JObj d2)) ''$type'' = Some t2))"
proof (intro conjI impI)
  show "\<exists>w'. sends a calls w = Inr (a, w')"
    by (rule sends_total)
next
  assume h: "passes_checks a t1 (JObj d1) \<and> passes_checks a t2 (JObj d2)
        \<and> wf_obj (eventData a) \<and> wf_obj d1 \<and> wf_obj d2"
  then have "sends a [(t1, JObj d1), (t2, JObj d2)] w =
      Inr (a, emit (Fetch (apiUrl (config a)) (compose t2 (eventData a) (JObj d2)))
               (emit (Fetch (apiUrl (config a)) (compose t1 (eventData a) (JObj d1))) w))"
    by (simp add: sendEvent_passes default_arg_def)
  then show "\<exists>w'. sends a [(t1, JObj d1), (t2, JObj d2)] w = Inr (a, w')
          \<and> posts w' = posts w @
               [(apiUrl (config a), compose t1 (eventData a) (JObj d1)),
                (apiUrl (config a), compose t2 (eventData a) (JObj d2))]"
    by (simp add: posts_emit_Fetch)
next
  assume h: "passes_checks a t1 (JObj d1) \<and> passes_checks a t2 (JObj d2)
        \<and> wf_obj (eventData a) \<and> wf_obj d1 \<and> wf_obj d2"
  then show "\<forall>k. k \<in> fst ` set (eventData a) \<and> k \<notin> fst ` set d1 \<and> k \<notin> fst ` set d2 \<longrightarrow>
             get_prop (compose t1 (eventData a) (JObj d1)) k = get_prop (eventData a) k
             \<and> get_prop (compose t2 (eventData a) (JObj d2)) k = get_prop (eventData a) k"
    by (simp add: get_prop_compose_template)
next
  assume "passes_checks a t1 (JObj d1) \<and> passes_checks a t2 (JObj d2)
        \<and> wf_obj (eventData a) \<and> wf_obj d1 \<and> wf_obj d2"
    and "''$type'' \<notin> fst ` set (eventData a) \<and> ''$type'' \<notin> fst ` set d1"
  then show "get_prop (compose t1 (eventData a) (JObj d1)) ''$type'' = Some t1"
    by (simp add: get_prop_compose_type)
next
  assume "passes_checks a t1 (JObj d1) \<and> passes_checks a t2 (JObj d2)
        \<and> wf_obj (eventData a) \<and> wf_obj d1 \<and> wf_obj d2"
    and "''$type'' \<notin> fst ` set (eventData a) \<and> ''$type'' \<notin> fst ` set d2"
  then show "get_prop (compose t2 (eventData a) (JObj d2)) ''$type'' = Some t2"
    by (simp add: get_prop_compose_type)
qed

theorem sendEvent_keeps_template_witness:
  "sends siftTracking
     [(JStr ''$login'', JObj [(''custom'', JStr ''var_value'')]), (JStr ''$logout'', JObj [])]
     fresh_page =
   Inr (siftTracking,
        emit (Fetch (apiUrl (config siftTracking))
                (compose (JStr ''$logout'') (eventData siftTracking) (JObj [])))
          (emit (Fetch (apiUrl (config siftTracking))
                   (compose (JStr ''$login'') (eventData siftTracking)
                      (JObj [(''custom'', JStr ''var_value'')])))
             fresh_page))
   \<and> get_prop (compose (JStr ''$login'') (eventData siftTracking)
         (JObj [(''custom'', JStr ''var_value'')])) ''$session_id'' = Some (JStr ''gl.getFEID()'')
   \<and> get_prop (compose (JStr ''$logout'') (eventData siftTracking) (JObj [])) ''$session_id''
       = Some (JStr ''gl.getFEID()'')
   \<and> get_prop (compose (JStr ''$login'') (eventData siftTracking)
         (JObj [(''custom'', JStr ''var_value'')])) ''$type'' = Some (JStr ''$login'')
   \<and> get_prop (compose (JStr ''$logout'') (eventData siftTracking) (JObj [])) ''$type''
       = Some (JStr ''$logout'')"
proof -
  have checks: "passes_checks siftTracking (JStr ''$login'') (JObj [(''custom'', JStr ''var_value'')])
        \<and> passes_checks siftTracking (JStr ''$logout'') (JObj [])
        \<and> wf_obj (eventData siftTracking) \<and> wf_obj [(''custom'', JStr ''var_value'')] \<and> wf_obj []"
    by (simp add: siftTracking_passes) (simp add: siftTracking_eval wf_obj_def)
  have keys: "''$session_id'' \<in> fst ` set (eventData siftTracking)
        \<and> ''$session_id'' \<notin> fst ` set [(''custom'', JStr ''var_value'')]
        \<and> ''$session_id'' \<notin> fst ` set ([] :: obj)
        \<and> ''$type'' \<notin> fst ` set (eventData siftTracking)
        \<and> ''$type'' \<notin> fst ` set [(''custom'', JStr ''var_value'')]
        \<and> ''$type'' \<notin> fst ` set ([] :: obj)"
    by (simp add: siftTracking_eval)
  have tpl: "get_prop (eventData siftTracking) ''$session_id'' = Some (JStr ''gl.getFEID()'')"
    by (simp add: siftTracking_eval get_prop_def)
  from sendEvent_keeps_template [of siftTracking "[]" fresh_page
      "JStr ''$login''" "[(''custom'', JStr ''var_value'')]" "JStr ''$logout''" "[]"]
    checks keys tpl sends_two [of siftTracking "JStr ''$login''" "[(''custom'', JStr ''var_value'')]"
      "JStr ''$logout''" "[]" fresh_page]
  show ?thesis by metis
qed

end
